theory Spec2Isabelle
  imports Complex_Main
begin

section \<open>JavaScript numbers\<close>

text \<open>
  The widgets compute with JavaScript numbers. A number is a finite value, one of the two
  infinities, or NaN. Finite values are modelled as exact reals: rounding and overflow of
  the binary64 format are left out, and the two zeros are one. A zero divisor therefore
  stands for \<open>+0\<close>, which is what the difference of two equal integers is.
\<close>

datatype jsnum = Fin real | PosInf | NegInf | NaN

text \<open>The binary operator \<^verbatim>\<open>-\<close>.\<close>

fun js_sub :: "jsnum \<Rightarrow> jsnum \<Rightarrow> jsnum" where
  "js_sub NaN y = NaN"
| "js_sub x NaN = NaN"
| "js_sub (Fin a) (Fin b) = Fin (a - b)"
| "js_sub (Fin a) PosInf = NegInf"
| "js_sub (Fin a) NegInf = PosInf"
| "js_sub PosInf (Fin b) = PosInf"
| "js_sub NegInf (Fin b) = NegInf"
| "js_sub PosInf NegInf = PosInf"
| "js_sub NegInf PosInf = NegInf"
| "js_sub PosInf PosInf = NaN"
| "js_sub NegInf NegInf = NaN"

text \<open>
  The binary operator \<^verbatim>\<open>/\<close>. Nothing is raised on a zero divisor: a non-zero
  dividend gives an infinity of its own sign, and zero by zero gives NaN.
\<close>

fun js_div :: "jsnum \<Rightarrow> jsnum \<Rightarrow> jsnum" where
  "js_div NaN y = NaN"
| "js_div x NaN = NaN"
| "js_div (Fin a) (Fin b) =
     (if b \<noteq> 0 then Fin (a / b)
      else if a = 0 then NaN
      else if 0 < a then PosInf else NegInf)"
| "js_div (Fin a) PosInf = Fin 0"
| "js_div (Fin a) NegInf = Fin 0"
| "js_div PosInf (Fin b) = (if 0 \<le> b then PosInf else NegInf)"
| "js_div NegInf (Fin b) = (if 0 \<le> b then NegInf else PosInf)"
| "js_div PosInf PosInf = NaN"
| "js_div PosInf NegInf = NaN"
| "js_div NegInf PosInf = NaN"
| "js_div NegInf NegInf = NaN"

text \<open>The binary operator \<^verbatim>\<open>*\<close>.\<close>

fun js_mul :: "jsnum \<Rightarrow> jsnum \<Rightarrow> jsnum" where
  "js_mul NaN y = NaN"
| "js_mul x NaN = NaN"
| "js_mul (Fin a) (Fin b) = Fin (a * b)"
| "js_mul (Fin a) PosInf = (if a = 0 then NaN else if 0 < a then PosInf else NegInf)"
| "js_mul (Fin a) NegInf = (if a = 0 then NaN else if 0 < a then NegInf else PosInf)"
| "js_mul PosInf (Fin b) = (if b = 0 then NaN else if 0 < b then PosInf else NegInf)"
| "js_mul NegInf (Fin b) = (if b = 0 then NaN else if 0 < b then NegInf else PosInf)"
| "js_mul PosInf PosInf = PosInf"
| "js_mul PosInf NegInf = NegInf"
| "js_mul NegInf PosInf = NegInf"
| "js_mul NegInf NegInf = PosInf"

text \<open>\<^verbatim>\<open>Math.min\<close> and \<^verbatim>\<open>Math.max\<close> of two arguments: NaN if either is NaN.\<close>

fun Math_min :: "jsnum \<Rightarrow> jsnum \<Rightarrow> jsnum" where
  "Math_min NaN y = NaN"
| "Math_min x NaN = NaN"
| "Math_min NegInf y = NegInf"
| "Math_min x NegInf = NegInf"
| "Math_min PosInf y = y"
| "Math_min x PosInf = x"
| "Math_min (Fin a) (Fin b) = Fin (min a b)"

fun Math_max :: "jsnum \<Rightarrow> jsnum \<Rightarrow> jsnum" where
  "Math_max NaN y = NaN"
| "Math_max x NaN = NaN"
| "Math_max PosInf y = PosInf"
| "Math_max x PosInf = PosInf"
| "Math_max NegInf y = y"
| "Math_max x NegInf = x"
| "Math_max (Fin a) (Fin b) = Fin (max a b)"

text \<open>The comparisons \<^verbatim>\<open>x < y\<close> and \<^verbatim>\<open>x > y\<close>: false whenever NaN is involved.\<close>

fun js_lt :: "jsnum \<Rightarrow> jsnum \<Rightarrow> bool" where
  "js_lt NaN y = False"
| "js_lt x NaN = False"
| "js_lt (Fin a) (Fin b) = (a < b)"
| "js_lt x NegInf = False"
| "js_lt NegInf y = True"
| "js_lt PosInf y = False"
| "js_lt x PosInf = True"

definition js_gt :: "jsnum \<Rightarrow> jsnum \<Rightarrow> bool" where
  "js_gt x y = js_lt y x"

section \<open>The page: what the window reports, its listeners, the component's state\<close>

text \<open>
  \<open>innerHeight\<close> is \<^verbatim>\<open>window.innerHeight\<close> and \<open>scrollHeight\<close> is
  \<^verbatim>\<open>document.documentElement.scrollHeight\<close>, both integers of the DOM;
  \<open>scrollY\<close> is \<^verbatim>\<open>window.scrollY\<close>, a finite number.
  \<open>listeners\<close> is the window's event listener list: the event type and the reference of
  the callback. \<open>next_ref\<close> is the next unused function reference: a closure that is
  created takes it. \<open>scrollProgress\<close> is the state cell of \<^verbatim>\<open>useState(0)\<close>.
\<close>

record page =
  innerHeight :: int
  scrollHeight :: int
  scrollY :: real
  listeners :: "(string \<times> nat) list"
  next_ref :: nat
  scrollProgress :: jsnum

text \<open>The state of a page before the component has mounted: \<^verbatim>\<open>useState(0)\<close>.\<close>

definition initial_page :: "int \<Rightarrow> int \<Rightarrow> real \<Rightarrow> (string \<times> nat) list \<Rightarrow> nat \<Rightarrow> page" where
  "initial_page wh dh y ls r =
     \<lparr>innerHeight = wh, scrollHeight = dh, scrollY = y, listeners = ls, next_ref = r,
      scrollProgress = Fin 0\<rparr>"

section \<open>ScrollProgress\<close>

text \<open>The local \<^verbatim>\<open>scrollPercentage\<close> of \<^verbatim>\<open>handleScroll\<close>.\<close>

definition scrollPercentage :: "page \<Rightarrow> jsnum" where
  "scrollPercentage p =
     (let windowHeight = Fin (of_int (innerHeight p));
          documentHeight = Fin (of_int (scrollHeight p));
          scrollTop = Fin (scrollY p)
      in js_mul (js_div scrollTop (js_sub documentHeight windowHeight)) (Fin 100))"

text \<open>\<^verbatim>\<open>handleScroll\<close>: the percentage, capped by \<^verbatim>\<open>Math.min\<close>, is stored.\<close>

definition handleScroll :: "page \<Rightarrow> page" where
  "handleScroll p = p\<lparr>scrollProgress := Math_min (scrollPercentage p) (Fin 100)\<rparr>"

text \<open>
  The specification's words, for comparison: the same quotient, clamped to the interval
  from 0 to 100 on both sides.
\<close>

definition spec_clamp_0_100 :: "jsnum \<Rightarrow> jsnum" where
  "spec_clamp_0_100 x = Math_max (Fin 0) (Math_min x (Fin 100))"

definition spec_progress :: "page \<Rightarrow> jsnum" where
  "spec_progress p =
     spec_clamp_0_100
       (js_mul (js_div (Fin (scrollY p))
                  (js_sub (Fin (of_int (scrollHeight p))) (Fin (of_int (innerHeight p)))))
               (Fin 100))"

text \<open>A number of the interval from 0 to 100: NaN and the infinities are not.\<close>

fun within_0_100 :: "jsnum \<Rightarrow> bool" where
  "within_0_100 (Fin r) = (0 \<le> r \<and> r \<le> 100)"
| "within_0_100 PosInf = False"
| "within_0_100 NegInf = False"
| "within_0_100 NaN = False"

subsection \<open>The mount effect and its cleanup\<close>

text \<open>
  \<^verbatim>\<open>window.addEventListener\<close> appends the listener unless the same type and
  callback are registered already; \<^verbatim>\<open>window.removeEventListener\<close> removes the
  registered listener of that type and callback, if there is one.
\<close>

definition addEventListener :: "string \<Rightarrow> nat \<Rightarrow> page \<Rightarrow> page" where
  "addEventListener ty cb p =
     (if (ty, cb) \<in> set (listeners p) then p
      else p\<lparr>listeners := listeners p @ [(ty, cb)]\<rparr>)"

definition removeEventListener :: "string \<Rightarrow> nat \<Rightarrow> page \<Rightarrow> page" where
  "removeEventListener ty cb p = p\<lparr>listeners := remove1 (ty, cb) (listeners p)\<rparr>"

text \<open>
  The body of \<^verbatim>\<open>useEffect(..., [])\<close>, run once when the component mounts: the
  closure \<^verbatim>\<open>handleScroll\<close> is created (it takes a new reference), registered for
  \<^verbatim>\<open>'scroll'\<close> and called once. The effect returns its cleanup, a closure over
  that reference: the model returns the reference, and \<open>effect_cleanup\<close> is what the
  cleanup does when the component unmounts.
\<close>

definition mount_effect :: "page \<Rightarrow> nat \<times> page" where
  "mount_effect p =
     (let handleScroll_ref = next_ref p;
          p1 = p\<lparr>next_ref := Suc handleScroll_ref\<rparr>;
          p2 = addEventListener ''scroll'' handleScroll_ref p1;
          p3 = handleScroll p2
      in (handleScroll_ref, p3))"

definition effect_cleanup :: "nat \<Rightarrow> page \<Rightarrow> page" where
  "effect_cleanup handleScroll_ref p = removeEventListener ''scroll'' handleScroll_ref p"

text \<open>Every callback registered on the window is a reference that has been handed out.\<close>

definition refs_allocated :: "page \<Rightarrow> bool" where
  "refs_allocated p = list_all (\<lambda>l. snd l < next_ref p) (listeners p)"

text \<open>The listeners of the window whose callback is the given reference.\<close>

definition listeners_of :: "nat \<Rightarrow> page \<Rightarrow> (string \<times> nat) list" where
  "listeners_of cb p = filter (\<lambda>l. snd l = cb) (listeners p)"

section \<open>ShinyText\<close>

text \<open>
  The props of \<^verbatim>\<open>ShinyTextProps\<close>; an optional prop that is left out, or is
  \<^verbatim>\<open>undefined\<close>, is \<open>None\<close>. The prop \<^verbatim>\<open>text\<close> is the field
  \<open>textProp\<close>.
\<close>

record ShinyTextProps =
  textProp :: string
  disabled :: "bool option"
  speed :: "jsnum option"
  className :: "string option"

text \<open>The rendered \<^verbatim>\<open>div\<close>: its class attribute, its one style entry, its child.\<close>

record rendered_div =
  divClassName :: string
  divAnimationDuration :: string
  divChildren :: string

text \<open>The decimal digits of a natural number.\<close>

fun digits :: "nat \<Rightarrow> string" where
  "digits n =
     (if n < 10 then [char_of (48 + n)]
      else digits (n div 10) @ [char_of (48 + n mod 10)])"

declare digits.simps [simp del]

text \<open>
  How a number is written inside a template literal. NaN, the infinities and the
  integers up to \<open>2\<^sup>5\<^sup>3\<close> in magnitude are as the language prints them: such an
  integer is printed with all its digits. Any other finite value, a fraction or a larger
  integer, is printed with the shortest digits that read back as the same binary64 value
  (\<open>2\<^sup>6\<^sup>0\<close> as \<^verbatim>\<open>1152921504606847000\<close>); these depend on the encoding,
  which is not modelled, and are taken from the parameter \<open>other\<close>.
\<close>

definition number_to_string :: "(real \<Rightarrow> string) \<Rightarrow> jsnum \<Rightarrow> string" where
  "number_to_string other x =
     (case x of
        NaN \<Rightarrow> ''NaN''
      | PosInf \<Rightarrow> ''Infinity''
      | NegInf \<Rightarrow> ''-Infinity''
      | Fin r \<Rightarrow>
          if r = of_int \<lfloor>r\<rfloor> \<and> \<bar>r\<bar> \<le> 2 ^ 53
          then (if r < 0 then ''-'' @ digits (nat (- \<lfloor>r\<rfloor>)) else digits (nat \<lfloor>r\<rfloor>))
          else other r)"

text \<open>
  \<^verbatim>\<open>ShinyText\<close>, with the defaults of its parameter list:
  \<^verbatim>\<open>disabled = false\<close>, \<^verbatim>\<open>speed = 5\<close> and the empty string for
  \<^verbatim>\<open>className\<close>.
\<close>

definition ShinyText :: "(real \<Rightarrow> string) \<Rightarrow> ShinyTextProps \<Rightarrow> rendered_div" where
  "ShinyText other props =
     (let text_v = textProp props;
          disabled_v = (case disabled props of None \<Rightarrow> False | Some b \<Rightarrow> b);
          speed_v = (case speed props of None \<Rightarrow> Fin 5 | Some n \<Rightarrow> n);
          className_v = (case className props of None \<Rightarrow> [] | Some c \<Rightarrow> c);
          animationDuration = number_to_string other speed_v @ ''s''
      in \<lparr>divClassName =
            ''shiny-text '' @ (if disabled_v then ''disabled'' else []) @ '' '' @ className_v,
          divAnimationDuration = animationDuration,
          divChildren = text_v\<rparr>)"

text \<open>
  The class list of an element: its class attribute split at ASCII whitespace (space,
  tab, line feed, form feed, carriage return), empty pieces dropped.
\<close>

definition is_ws :: "char \<Rightarrow> bool" where
  "is_ws c = (c = CHR '' '' \<or> c = CHR 0x09 \<or> c = CHR 0x0A \<or> c = CHR 0x0C \<or> c = CHR 0x0D)"

fun tokens_from :: "string \<Rightarrow> string \<Rightarrow> string list" where
  "tokens_from cur [] = (if cur = [] then [] else [cur])"
| "tokens_from cur (c # cs) =
     (if is_ws c then (if cur = [] then tokens_from [] cs else cur # tokens_from [] cs)
      else tokens_from (cur @ [c]) cs)"

definition classList :: "string \<Rightarrow> string list" where
  "classList s = tokens_from [] s"

section \<open>Declared props of the components\<close>

text \<open>
  The types that the prop declarations of the components use, and the declarations
  themselves: the component or props type, the prop, its type, and whether it is
  optional. \<^verbatim>\<open>FeatureItem\<close> is the props type of \<^verbatim>\<open>Feature\<close>;
  \<^verbatim>\<open>Root\<close> declares its props inline. The other components of the source files
  at hand (ScrollProgress, CatButton, FooterRive, HomepageFeatures, HomepageHeader, Home)
  take no props.
\<close>

datatype ts_type = TString | TNumber | TBoolean | TReactNode

record prop_decl =
  owner :: string
  prop_name :: string
  prop_type :: ts_type
  optional :: bool

definition FeatureItem_decl :: "prop_decl list" where
  "FeatureItem_decl =
     [\<lparr>owner = ''FeatureItem'', prop_name = ''title'', prop_type = TString, optional = False\<rparr>,
      \<lparr>owner = ''FeatureItem'', prop_name = ''emoji'', prop_type = TString, optional = False\<rparr>,
      \<lparr>owner = ''FeatureItem'', prop_name = ''description'', prop_type = TReactNode, optional = False\<rparr>,
      \<lparr>owner = ''FeatureItem'', prop_name = ''gradient'', prop_type = TString, optional = False\<rparr>]"

definition ShinyTextProps_decl :: "prop_decl list" where
  "ShinyTextProps_decl =
     [\<lparr>owner = ''ShinyTextProps'', prop_name = ''text'', prop_type = TString, optional = False\<rparr>,
      \<lparr>owner = ''ShinyTextProps'', prop_name = ''disabled'', prop_type = TBoolean, optional = True\<rparr>,
      \<lparr>owner = ''ShinyTextProps'', prop_name = ''speed'', prop_type = TNumber, optional = True\<rparr>,
      \<lparr>owner = ''ShinyTextProps'', prop_name = ''className'', prop_type = TString, optional = True\<rparr>]"

definition Root_decl :: "prop_decl list" where
  "Root_decl =
     [\<lparr>owner = ''Root'', prop_name = ''children'', prop_type = TReactNode, optional = False\<rparr>]"

definition declared_props :: "prop_decl list" where
  "declared_props = FeatureItem_decl @ ShinyTextProps_decl @ Root_decl"

definition is_primitive :: "ts_type \<Rightarrow> bool" where
  "is_primitive t = (t = TString \<or> t = TNumber \<or> t = TBoolean)"

text \<open>
  Modelled from the spec: the props type of \<^verbatim>\<open>LightRays\<close>. The component is
  imported by the home page, but its source file is not among the source files. Its props
  are taken to be the ten that the one call site, in \<^verbatim>\<open>HomepageHeader\<close>, passes, and
  each has the type that the spec gives component props (strings, numbers, booleans) and
  that the value passed there has.
\<close>

definition LightRays_props :: "(string \<times> ts_type) list" where
  "LightRays_props =
     [(''raysOrigin'', TString),
      (''raysColor'', TString),
      (''raysSpeed'', TNumber),
      (''lightSpread'', TNumber),
      (''rayLength'', TNumber),
      (''followMouse'', TBoolean),
      (''mouseInfluence'', TNumber),
      (''noiseAmount'', TNumber),
      (''distortion'', TNumber),
      (''className'', TString)]"

text \<open>
  The constants of the source files that hold static data, with the types they are
  declared with: \<^verbatim>\<open>const sidebars: SidebarsConfig\<close>,
  \<^verbatim>\<open>const FeatureList: FeatureItem[]\<close> and \<^verbatim>\<open>const config: Config\<close>. Every
  other top-level declaration of the source files is a type or a component.
\<close>

record data_decl =
  data_name :: string
  data_type :: string

definition static_data :: "data_decl list" where
  "static_data =
     [\<lparr>data_name = ''sidebars'', data_type = ''SidebarsConfig''\<rparr>,
      \<lparr>data_name = ''FeatureList'', data_type = ''FeatureItem[]''\<rparr>,
      \<lparr>data_name = ''config'', data_type = ''Config''\<rparr>]"

section \<open>The sidebars configuration\<close>

text \<open>
  An item of a sidebar is a document id or a category with a label, an optional
  \<^verbatim>\<open>collapsible\<close> flag and its items. Labels are the bytes of their UTF-8
  encoding. The configuration object is kept as the list of its entries, in order.
\<close>

datatype sidebar_item =
    Doc string
  | Category (label: string) (collapsible: "bool option") (items: "sidebar_item list")

definition gettingStartedSidebar :: "sidebar_item list" where
  "gettingStartedSidebar =
     [
      Category ([CHR 0xF0, CHR 0x9F, CHR 0x9A, CHR 0x80] @ '' Getting Started'') (Some False)
        [
           Doc ''getting-started/installation'',
           Doc ''getting-started/quick-start'',
           Doc ''getting-started/requirements''
        ]
     ]"

definition coreConceptsSidebar :: "sidebar_item list" where
  "coreConceptsSidebar =
     [
      Category ([CHR 0xF0, CHR 0x9F, CHR 0x92, CHR 0xA1] @ '' Core Concepts'') (Some False)
        [
           Doc ''core-concepts/overview'',
           Doc ''core-concepts/architecture'',
           Doc ''core-concepts/design-philosophy'',
           Doc ''core-concepts/faq''
        ]
     ]"

definition apiSidebar :: "sidebar_item list" where
  "apiSidebar =
     [
      Category ([CHR 0xF0, CHR 0x9F, CHR 0x93, CHR 0x98] @ '' API Reference'') (Some False)
        [
           Doc ''api/reference'',
           Doc ''api/hooks'',
           Doc ''api/classes'',
           Doc ''api/utils'',
           Doc ''api/config''
        ]
     ]"

definition guidesSidebar :: "sidebar_item list" where
  "guidesSidebar =
     [
      Category ([CHR 0xF0, CHR 0x9F, CHR 0x93, CHR 0x9A] @ '' Guides'') (Some False)
        [
           Doc ''guides/using-with-react'',
           Doc ''guides/integration-examples'',
           Doc ''guides/troubleshooting'',
           Doc ''guides/performance-tips''
        ]
     ]"

definition packagesSidebar :: "sidebar_item list" where
  "packagesSidebar =
     [
      Category ([CHR 0xF0, CHR 0x9F, CHR 0x93, CHR 0xA6] @ '' Packages'') (Some False)
        [
           Doc ''packages/overview/index'',
           Category ([CHR 0xF0, CHR 0x9F, CHR 0x8E, CHR 0xAF] @ '' @xhub-chat/core'') (Some True)
             [
                Doc ''packages/core/index'',
                Doc ''packages/core/api'',
                Category ''Guides'' None
                  [
                     Doc ''packages/core/guides/storage'',
                     Doc ''packages/core/guides/events'',
                     Doc ''packages/core/guides/sync''
                  ]
             ],
           Category ([CHR 0xE2, CHR 0x9A, CHR 0x9B, CHR 0xEF, CHR 0xB8, CHR 0x8F] @ '' @xhub-chat/react'') (Some True)
             [
                Doc ''packages/react/index'',
                Doc ''packages/react/hooks'',
                Doc ''packages/react/provider'',
                Category ''Guides'' None
                  [
                     Doc ''packages/react/guides/provider'',
                     Doc ''packages/react/guides/state-management'',
                     Doc ''packages/react/guides/nextjs''
                  ]
             ]
        ]
     ]"

definition featuresSidebar :: "sidebar_item list" where
  "featuresSidebar =
     [
      Category ([CHR 0xF0, CHR 0x9F, CHR 0x8E, CHR 0xAF] @ '' Features'') (Some False)
        [
           Doc ''features/index'',
           Category ([CHR 0xF0, CHR 0x9F, CHR 0x93, CHR 0xAC] @ '' Messaging'') (Some True)
             [
                Doc ''features/messaging/room-list'',
                Doc ''features/messaging/send-receive'',
                Doc ''features/messaging/unread-count''
             ],
           Category ([CHR 0xF0, CHR 0x9F, CHR 0x93, CHR 0x9D] @ '' Posts'') (Some True)
             [
                Doc ''features/posts/view-posts'',
                Doc ''features/posts/like-unlike'',
                Doc ''features/posts/comments'',
                Doc ''features/posts/reply-like-comments''
             ]
        ]
     ]"

definition platformsSidebar :: "sidebar_item list" where
  "platformsSidebar =
     [
      Category ([CHR 0xF0, CHR 0x9F, CHR 0x93, CHR 0xA6] @ '' Platforms'') (Some False)
        [
           Doc ''platforms/core'',
           Doc ''platforms/react''
        ]
     ]"

definition advancedSidebar :: "sidebar_item list" where
  "advancedSidebar =
     [
      Category ([CHR 0xF0, CHR 0x9F, CHR 0x94, CHR 0xA7] @ '' Advanced'') (Some False)
        [
           Doc ''advanced/plugin-system'',
           Doc ''advanced/architecture-deep-dive'',
           Doc ''advanced/lifecycle''
        ]
     ]"

definition examplesSidebar :: "sidebar_item list" where
  "examplesSidebar =
     [
      Category ([CHR 0xF0, CHR 0x9F, CHR 0x92, CHR 0xBB] @ '' Examples'') (Some False)
        [
           Doc ''examples/minimal-example'',
           Doc ''examples/custom-provider'',
           Doc ''examples/full-app''
        ]
     ]"

definition sidebars :: "(string \<times> sidebar_item list) list" where
  "sidebars =
     [(''gettingStartedSidebar'', gettingStartedSidebar),
      (''coreConceptsSidebar'', coreConceptsSidebar),
      (''apiSidebar'', apiSidebar),
      (''guidesSidebar'', guidesSidebar),
      (''packagesSidebar'', packagesSidebar),
      (''featuresSidebar'', featuresSidebar),
      (''platformsSidebar'', platformsSidebar),
      (''advancedSidebar'', advancedSidebar),
      (''examplesSidebar'', examplesSidebar)]"

text \<open>Whether an item is a category; every category at or below an item.\<close>

fun is_category :: "sidebar_item \<Rightarrow> bool" where
  "is_category (Doc d) = False"
| "is_category (Category l c its) = True"

fun categories :: "sidebar_item \<Rightarrow> sidebar_item list" where
  "categories (Doc d) = []"
| "categories (Category l c its) = Category l c its # concat (map categories its)"

text \<open>The categories strictly below the top-level items of a sidebar.\<close>

fun subcategories :: "sidebar_item \<Rightarrow> sidebar_item list" where
  "subcategories (Doc d) = []"
| "subcategories (Category l c its) = concat (map categories its)"

definition nested_categories :: "sidebar_item list \<Rightarrow> sidebar_item list" where
  "nested_categories entry = concat (map subcategories entry)"

text \<open>
  A top-level entry as the configuration has them: one item, a category, whose
  \<^verbatim>\<open>collapsible\<close> is \<^verbatim>\<open>false\<close>.
\<close>

fun single_fixed_category :: "sidebar_item list \<Rightarrow> bool" where
  "single_fixed_category [Category l c its] = (c = Some False)"
| "single_fixed_category entry = False"

section \<open>Properties of the scroll percentage\<close>

lemma scrollPercentage_scrollable:
  assumes "innerHeight p < scrollHeight p"
  shows "scrollPercentage p =
           Fin (scrollY p / (of_int (scrollHeight p) - of_int (innerHeight p)) * 100)"
  using assms by (simp add: scrollPercentage_def)

lemma Math_min_100_not_above: "\<not> js_gt (Math_min x (Fin 100)) (Fin 100)"
  by (cases x) (simp_all add: js_gt_def)

text \<open>
  Claim C1, as amended. \<^verbatim>\<open>handleScroll\<close> caps the percentage from above only:
  for every scroll state the stored progress is never above 100; and for every scroll
  state whose document is taller than the window and whose scroll offset is not negative,
  the stored progress is the quotient clamped to the interval from 0 to 100, so it lies
  in that interval.
\<close>

theorem handleScroll_capped:
  "\<not> js_gt (scrollProgress (handleScroll p)) (Fin 100) \<and>
   (innerHeight p < scrollHeight p \<and> 0 \<le> scrollY p \<longrightarrow>
      scrollProgress (handleScroll p) = spec_progress p \<and>
      within_0_100 (scrollProgress (handleScroll p)))"
proof (intro conjI impI)
  show "\<not> js_gt (scrollProgress (handleScroll p)) (Fin 100)"
    by (simp add: handleScroll_def Math_min_100_not_above)
next
  assume a: "innerHeight p < scrollHeight p \<and> 0 \<le> scrollY p"
  then have d: "0 < (of_int (scrollHeight p) - of_int (innerHeight p) :: real)" by simp
  with a have q: "0 \<le> scrollY p / (of_int (scrollHeight p) - of_int (innerHeight p)) * 100"
    by simp
  from a have sp: "scrollPercentage p =
      Fin (scrollY p / (of_int (scrollHeight p) - of_int (innerHeight p)) * 100)"
    by (simp add: scrollPercentage_scrollable)
  show "scrollProgress (handleScroll p) = spec_progress p"
    using a q
    by (simp add: handleScroll_def sp spec_progress_def spec_clamp_0_100_def max_def min_def)
  show "within_0_100 (scrollProgress (handleScroll p))"
    using q by (simp add: handleScroll_def sp min_def)
qed

text \<open>Half way down a document of height 2000 in a window of height 1000: 50.\<close>

theorem handleScroll_capped_witness:
  "scrollProgress (handleScroll (initial_page 1000 2000 500 [] 0)) = Fin 50 \<and>
   spec_progress (initial_page 1000 2000 500 [] 0) = Fin 50 \<and>
   within_0_100 (scrollProgress (handleScroll (initial_page 1000 2000 500 [] 0)))"
  using handleScroll_capped [of "initial_page 1000 2000 500 [] 0"]
  by (simp add: initial_page_def spec_progress_def spec_clamp_0_100_def)

text \<open>
  Claim C1 as stated fails where the scroll offset is negative (an overscroll above the
  top of the document): with a window of height 1000, a document of height 2000 and
  \<^verbatim>\<open>scrollY = -250\<close>, the stored progress is \<open>-25\<close>, while the clamped quotient
  is 0.
\<close>

theorem handleScroll_no_lower_clamp:
  "scrollProgress (handleScroll (initial_page 1000 2000 (- 250) [] 0)) = Fin (- 25) \<and>
   spec_progress (initial_page 1000 2000 (- 250) [] 0) = Fin 0 \<and>
   \<not> within_0_100 (scrollProgress (handleScroll (initial_page 1000 2000 (- 250) [] 0)))"
  by (simp add: initial_page_def handleScroll_def scrollPercentage_def spec_progress_def
      spec_clamp_0_100_def)

text \<open>
  Claim C2. Where the document is strictly taller than the window and the scroll offset
  is their difference (the bottom of the document), the stored progress is exactly 100.
\<close>

theorem handleScroll_bottom:
  assumes "innerHeight p < scrollHeight p"
    and "scrollY p = of_int (scrollHeight p - innerHeight p)"
  shows "scrollProgress (handleScroll p) = Fin 100"
  using assms by (simp add: handleScroll_def scrollPercentage_def)

theorem handleScroll_bottom_witness:
  "innerHeight (initial_page 1000 2000 1000 [] 0)
     < scrollHeight (initial_page 1000 2000 1000 [] 0) \<and>
   scrollProgress (handleScroll (initial_page 1000 2000 1000 [] 0)) = Fin 100"
  using handleScroll_bottom [of "initial_page 1000 2000 1000 [] 0"]
  by (simp add: initial_page_def)

text \<open>
  Claim C3. The division is unguarded: where the document is as tall as the window and
  the scroll offset is 0, the quotient is zero by zero, which is NaN, and NaN is what
  \<^verbatim>\<open>setScrollProgress\<close> receives: not a number of the interval from 0 to 100.
\<close>

theorem handleScroll_zero_by_zero:
  assumes "scrollHeight p = innerHeight p" and "scrollY p = 0"
  shows "js_div (Fin (scrollY p))
           (js_sub (Fin (of_int (scrollHeight p))) (Fin (of_int (innerHeight p)))) = NaN \<and>
         scrollProgress (handleScroll p) = NaN \<and>
         \<not> within_0_100 (scrollProgress (handleScroll p))"
  using assms by (simp add: handleScroll_def scrollPercentage_def)

theorem handleScroll_zero_by_zero_witness:
  "scrollHeight (initial_page 800 800 0 [] 0) = innerHeight (initial_page 800 800 0 [] 0) \<and>
   scrollY (initial_page 800 800 0 [] 0) = 0 \<and>
   scrollProgress (handleScroll (initial_page 800 800 0 [] 0)) = NaN"
  using handleScroll_zero_by_zero [of "initial_page 800 800 0 [] 0"]
  by (simp add: initial_page_def)

section \<open>The listener of ScrollProgress\<close>

lemma listeners_handleScroll: "listeners (handleScroll p) = listeners p"
  by (simp add: handleScroll_def)

lemma fresh_ref_unregistered:
  assumes "refs_allocated p"
  shows "(ty, next_ref p) \<notin> set (listeners p)"
  using assms by (auto simp: refs_allocated_def list_all_iff)

lemma remove1_only_listener:
  assumes "filter (\<lambda>l. snd l = h) ls = [(ty, h)]"
  shows "remove1 (ty, h) ls = filter (\<lambda>l. snd l \<noteq> h) ls"
  using assms
proof (induction ls)
  case Nil
  then show ?case by simp
next
  case (Cons l ls)
  show ?case
  proof (cases "snd l = h")
    case True
    with Cons.prems have l: "l = (ty, h)" and rest: "filter (\<lambda>l. snd l = h) ls = []"
      by simp_all
    from rest have "filter (\<lambda>l. snd l \<noteq> h) ls = ls"
      by (simp add: filter_empty_conv filter_id_conv)
    with l show ?thesis by simp
  next
    case False
    with Cons.prems have "filter (\<lambda>l. snd l = h) ls = [(ty, h)]" by simp
    then have "remove1 (ty, h) ls = filter (\<lambda>l. snd l \<noteq> h) ls" by (rule Cons.IH)
    with False show ?thesis by auto
  qed
qed

lemma cleanup_later:
  assumes "listeners_of h r = [(''scroll'', h)]"
  shows "effect_cleanup h r = r\<lparr>listeners := filter (\<lambda>l. snd l \<noteq> h) (listeners r)\<rparr>"
  using assms
  by (simp add: effect_cleanup_def removeEventListener_def listeners_of_def
      remove1_only_listener)

text \<open>
  Claim C4. On a page whose registered callbacks are all references handed out before,
  the mount effect registers exactly one listener, a \<^verbatim>\<open>'scroll'\<close> listener whose
  callback is the new \<^verbatim>\<open>handleScroll\<close>; the cleanup removes that listener and
  nothing else, so the window's listeners are what they were before the mount, and none
  of them is the component's. The same holds when the cleanup runs later, in any state
  of the page where the component's listener is still the one registration of its
  callback, whatever other listeners have come and gone since the mount: the cleanup
  changes nothing but the listener list, every listener of other code stays, in its
  order, and none of the component's is left.
\<close>

theorem mount_then_cleanup:
  assumes "refs_allocated p" and "mount_effect p = (h, q)"
  shows "listeners q = listeners p @ [(''scroll'', h)] \<and>
         listeners_of h p = [] \<and>
         listeners_of h q = [(''scroll'', h)] \<and>
         listeners (effect_cleanup h q) = listeners p \<and>
         listeners_of h (effect_cleanup h q) = [] \<and>
         (\<forall>r. listeners_of h r = [(''scroll'', h)] \<longrightarrow>
            effect_cleanup h r = r\<lparr>listeners := filter (\<lambda>l. snd l \<noteq> h) (listeners r)\<rparr> \<and>
            listeners_of h (effect_cleanup h r) = [])"
proof -
  from assms(2) have h: "h = next_ref p"
    by (simp add: mount_effect_def Let_def)
  have fresh: "(''scroll'', h) \<notin> set (listeners p)"
    unfolding h using assms(1) by (rule fresh_ref_unregistered)
  have none: "listeners_of h p = []"
    using assms(1)
    by (auto simp: listeners_of_def refs_allocated_def list_all_iff h filter_empty_conv)
  from assms(2) fresh have q: "listeners q = listeners p @ [(''scroll'', h)]"
    by (auto simp: mount_effect_def Let_def addEventListener_def listeners_handleScroll)
  have restored: "listeners (effect_cleanup h q) = listeners p"
    using fresh by (simp add: effect_cleanup_def removeEventListener_def q remove1_append)
  have later: "effect_cleanup h r = r\<lparr>listeners := filter (\<lambda>l. snd l \<noteq> h) (listeners r)\<rparr> \<and>
      listeners_of h (effect_cleanup h r) = []"
    if "listeners_of h r = [(''scroll'', h)]" for r
    using that by (simp add: cleanup_later listeners_of_def)
  show ?thesis
    using none q restored later by (simp add: listeners_of_def)
qed

text \<open>
  A window that already has a resize listener and a scroll listener of other code: the
  component's listener is added after them and removed again. And when a click listener
  has been added after the mount, the cleanup still removes the component's listener,
  not the last one.
\<close>

theorem mount_then_cleanup_witness:
  "refs_allocated (initial_page 1000 2000 0 [(''resize'', 0), (''scroll'', 1)] 2) \<and>
   mount_effect (initial_page 1000 2000 0 [(''resize'', 0), (''scroll'', 1)] 2) =
     (2, (initial_page 1000 2000 0 [(''resize'', 0), (''scroll'', 1), (''scroll'', 2)] 3)) \<and>
   listeners (effect_cleanup 2
      (initial_page 1000 2000 0 [(''resize'', 0), (''scroll'', 1), (''scroll'', 2)] 3)) =
     [(''resize'', 0), (''scroll'', 1)] \<and>
   listeners_of 2
      (initial_page 1000 2000 700
         [(''resize'', 0), (''scroll'', 1), (''scroll'', 2), (''click'', 3)] 4) =
     [(''scroll'', 2)] \<and>
   effect_cleanup 2
      (initial_page 1000 2000 700
         [(''resize'', 0), (''scroll'', 1), (''scroll'', 2), (''click'', 3)] 4) =
     initial_page 1000 2000 700 [(''resize'', 0), (''scroll'', 1), (''click'', 3)] 4"
proof -
  have a: "refs_allocated (initial_page 1000 2000 0 [(''resize'', 0), (''scroll'', 1)] 2)"
    by (simp add: refs_allocated_def initial_page_def)
  have b: "mount_effect (initial_page 1000 2000 0 [(''resize'', 0), (''scroll'', 1)] 2) =
     (2, (initial_page 1000 2000 0 [(''resize'', 0), (''scroll'', 1), (''scroll'', 2)] 3))"
    by (simp add: mount_effect_def initial_page_def addEventListener_def handleScroll_def
        scrollPercentage_def Let_def)
  have c: "listeners_of 2
      (initial_page 1000 2000 700
         [(''resize'', 0), (''scroll'', 1), (''scroll'', 2), (''click'', 3)] 4) =
     [(''scroll'', 2)]"
    by (simp add: listeners_of_def initial_page_def)
  note t = mount_then_cleanup [OF a b]
  from t have "effect_cleanup 2
      (initial_page 1000 2000 700
         [(''resize'', 0), (''scroll'', 1), (''scroll'', 2), (''click'', 3)] 4) =
     (initial_page 1000 2000 700
         [(''resize'', 0), (''scroll'', 1), (''scroll'', 2), (''click'', 3)] 4)
       \<lparr>listeners := filter (\<lambda>l. snd l \<noteq> 2)
          (listeners (initial_page 1000 2000 700
             [(''resize'', 0), (''scroll'', 1), (''scroll'', 2), (''click'', 3)] 4))\<rparr>"
    using c by blast
  then have d: "effect_cleanup 2
      (initial_page 1000 2000 700
         [(''resize'', 0), (''scroll'', 1), (''scroll'', 2), (''click'', 3)] 4) =
     initial_page 1000 2000 700 [(''resize'', 0), (''scroll'', 1), (''click'', 3)] 4"
    by (simp add: initial_page_def)
  from t a b c d show ?thesis
    by (simp add: initial_page_def)
qed

section \<open>The types of the declared props\<close>

text \<open>
  Claim C5, as amended. Every prop that the components declare has type string, number,
  boolean or \<^verbatim>\<open>ReactNode\<close>. Seven of the declared props have type string, number
  or boolean: the title, emoji and gradient of \<^verbatim>\<open>FeatureItem\<close> and the four props
  of \<^verbatim>\<open>ShinyTextProps\<close>; so has each of the ten props passed to
  \<^verbatim>\<open>LightRays\<close>. Exactly two, the description of \<^verbatim>\<open>FeatureItem\<close> and the
  children of \<^verbatim>\<open>Root\<close>, have type \<^verbatim>\<open>ReactNode\<close>. The static data of the
  source files are the sidebar trees and, beside them, the list of features and the site
  configuration.
\<close>

theorem declared_prop_types:
  "map (\<lambda>d. (owner d, prop_name d)) (filter (\<lambda>d. is_primitive (prop_type d)) declared_props) =
     [(''FeatureItem'', ''title''), (''FeatureItem'', ''emoji''), (''FeatureItem'', ''gradient''),
      (''ShinyTextProps'', ''text''), (''ShinyTextProps'', ''disabled''),
      (''ShinyTextProps'', ''speed''), (''ShinyTextProps'', ''className'')] \<and>
   map (\<lambda>d. (owner d, prop_name d, prop_type d))
       (filter (\<lambda>d. \<not> is_primitive (prop_type d)) declared_props) =
     [(''FeatureItem'', ''description'', TReactNode), (''Root'', ''children'', TReactNode)] \<and>
   map fst LightRays_props =
     [''raysOrigin'', ''raysColor'', ''raysSpeed'', ''lightSpread'', ''rayLength'',
      ''followMouse'', ''mouseInfluence'', ''noiseAmount'', ''distortion'', ''className''] \<and>
   filter (\<lambda>d. \<not> is_primitive (snd d)) LightRays_props = [] \<and>
   map data_name (filter (\<lambda>d. data_type d = ''SidebarsConfig'') static_data) = [''sidebars''] \<and>
   map data_name (filter (\<lambda>d. data_type d \<noteq> ''SidebarsConfig'') static_data) =
     [''FeatureList'', ''config'']"
proof (intro conjI)
  show "map (\<lambda>d. (owner d, prop_name d))
          (filter (\<lambda>d. is_primitive (prop_type d)) declared_props) =
     [(''FeatureItem'', ''title''), (''FeatureItem'', ''emoji''), (''FeatureItem'', ''gradient''),
      (''ShinyTextProps'', ''text''), (''ShinyTextProps'', ''disabled''),
      (''ShinyTextProps'', ''speed''), (''ShinyTextProps'', ''className'')]"
    by (simp add: declared_props_def FeatureItem_decl_def ShinyTextProps_decl_def Root_decl_def
        is_primitive_def)
  show "map (\<lambda>d. (owner d, prop_name d, prop_type d))
       (filter (\<lambda>d. \<not> is_primitive (prop_type d)) declared_props) =
     [(''FeatureItem'', ''description'', TReactNode), (''Root'', ''children'', TReactNode)]"
    by (simp add: declared_props_def FeatureItem_decl_def ShinyTextProps_decl_def Root_decl_def
        is_primitive_def)
  show "map fst LightRays_props =
     [''raysOrigin'', ''raysColor'', ''raysSpeed'', ''lightSpread'', ''rayLength'',
      ''followMouse'', ''mouseInfluence'', ''noiseAmount'', ''distortion'', ''className'']"
    by (simp add: LightRays_props_def)
  show "filter (\<lambda>d. \<not> is_primitive (snd d)) LightRays_props = []"
    by (simp add: LightRays_props_def is_primitive_def)
  show "map data_name (filter (\<lambda>d. data_type d = ''SidebarsConfig'') static_data) =
     [''sidebars'']"
    by (simp add: static_data_def)
  show "map data_name (filter (\<lambda>d. data_type d \<noteq> ''SidebarsConfig'') static_data) =
     [''FeatureList'', ''config'']"
    by (simp add: static_data_def)
qed

text \<open>
  Claim C5 as stated fails at the description of \<^verbatim>\<open>FeatureItem\<close>: it is a declared
  prop, and its type \<^verbatim>\<open>ReactNode\<close> is none of string, number and boolean. And
  beside the props and the sidebar trees the source files hold the site configuration,
  of type \<^verbatim>\<open>Config\<close>.
\<close>

theorem description_not_primitive:
  "\<lparr>owner = ''FeatureItem'', prop_name = ''description'', prop_type = TReactNode,
     optional = False\<rparr> \<in> set declared_props \<and>
   \<not> is_primitive TReactNode \<and>
   \<lparr>data_name = ''config'', data_type = ''Config''\<rparr> \<in> set static_data \<and>
   ''Config'' \<noteq> ''SidebarsConfig''"
  by (simp add: declared_props_def FeatureItem_decl_def is_primitive_def static_data_def)

section \<open>The shape of the sidebars\<close>

text \<open>
  Claim C6. The configuration has nine entries, from \<^verbatim>\<open>gettingStartedSidebar\<close> to
  \<^verbatim>\<open>examplesSidebar\<close>; each is a list of exactly one item, a category whose
  \<^verbatim>\<open>collapsible\<close> is \<^verbatim>\<open>false\<close>. Of the six categories nested below them,
  four set \<^verbatim>\<open>collapsible\<close>, all to \<^verbatim>\<open>true\<close>, and two leave it unset.
\<close>

theorem sidebars_shape:
  "map fst sidebars =
     [''gettingStartedSidebar'', ''coreConceptsSidebar'', ''apiSidebar'', ''guidesSidebar'',
      ''packagesSidebar'', ''featuresSidebar'', ''platformsSidebar'', ''advancedSidebar'',
      ''examplesSidebar''] \<and>
   length sidebars = 9 \<and>
   list_all (\<lambda>e. single_fixed_category (snd e)) sidebars \<and>
   map collapsible (concat (map (\<lambda>e. nested_categories (snd e)) sidebars)) =
     [Some True, None, Some True, None, Some True, Some True] \<and>
   list_all (\<lambda>c. collapsible c = None \<or> collapsible c = Some True)
     (concat (map (\<lambda>e. nested_categories (snd e)) sidebars))"
  by (simp add: sidebars_def gettingStartedSidebar_def coreConceptsSidebar_def apiSidebar_def
      guidesSidebar_def packagesSidebar_def featuresSidebar_def platformsSidebar_def
      advancedSidebar_def examplesSidebar_def nested_categories_def)

section \<open>What ShinyText renders\<close>

lemma tokens_from_ws:
  "is_ws c \<Longrightarrow> tokens_from cur (xs @ c # ys) = tokens_from cur xs @ tokens_from [] ys"
  by (induction xs arbitrary: cur) auto

lemma classList_ws: "is_ws c \<Longrightarrow> classList (xs @ c # ys) = classList xs @ classList ys"
  by (simp add: classList_def tokens_from_ws)

lemma classList_shiny_text: "classList ''shiny-text'' = [''shiny-text'']"
  by (simp add: classList_def is_ws_def)

lemma classList_disabled: "classList ''disabled'' = [''disabled'']"
  by (simp add: classList_def is_ws_def)

text \<open>
  The class list of the rendered element: \<^verbatim>\<open>shiny-text\<close>, then
  \<^verbatim>\<open>disabled\<close> if the prop is true, then the classes of the \<^verbatim>\<open>className\<close> prop.
\<close>

lemma classList_ShinyText:
  "classList (divClassName (ShinyText other props)) =
     ''shiny-text'' #
     (if disabled props = Some True then [''disabled''] else []) @
     classList (case className props of None \<Rightarrow> [] | Some c \<Rightarrow> c)"
proof -
  have sp: "is_ws CHR '' ''" by (simp add: is_ws_def)
  have e: "classList [] = []" by (simp add: classList_def)
  have "divClassName (ShinyText other props) =
      ''shiny-text'' @ CHR '' '' #
        ((if disabled props = Some True then ''disabled'' else []) @ CHR '' '' #
          (case className props of None \<Rightarrow> [] | Some c \<Rightarrow> c))"
    by (simp add: ShinyText_def Let_def split: option.splits)
  then show ?thesis
    by (simp only: classList_ws [OF sp] classList_shiny_text)
       (simp add: classList_disabled e)
qed

lemma digits_5: "digits 5 = ''5''"
  by code_simp

lemma number_to_string_5: "number_to_string other (Fin 5) = ''5''"
  by (simp add: number_to_string_def digits_5)

lemma number_to_string_integers:
  "number_to_string other (Fin 120) = ''120''"
  "number_to_string other (Fin (- 3)) = ''-3''"
  by (simp add: number_to_string_def, code_simp)+

lemma number_to_string_fraction:
  "number_to_string other (Fin (5 / 2)) = other (5 / 2)"
  by (simp add: number_to_string_def)

lemma number_to_string_large:
  "number_to_string other (Fin (2 ^ 60)) = other (2 ^ 60)"
  by (simp add: number_to_string_def)

text \<open>
  Claim C7, as amended. For every props value the rendered element is determined by the
  props: the animation duration is the speed, 5 when the prop is left out, followed by
  \<^verbatim>\<open>s\<close>, so that leaving the speed out gives \<^verbatim>\<open>5s\<close>; and, provided the
  \<^verbatim>\<open>className\<close> prop does not itself hold the class \<^verbatim>\<open>disabled\<close>, that class
  is in the rendered class list if and only if the \<^verbatim>\<open>disabled\<close> prop is true
  (left out, it is false).
\<close>

theorem ShinyText_render:
  "divAnimationDuration (ShinyText other props) =
     number_to_string other (case speed props of None \<Rightarrow> Fin 5 | Some n \<Rightarrow> n) @ ''s'' \<and>
   (speed props = None \<longrightarrow> divAnimationDuration (ShinyText other props) = ''5s'') \<and>
   divChildren (ShinyText other props) = textProp props \<and>
   (''disabled'' \<notin> set (classList (case className props of None \<Rightarrow> [] | Some c \<Rightarrow> c)) \<longrightarrow>
      (''disabled'' \<in> set (classList (divClassName (ShinyText other props)))
         \<longleftrightarrow> disabled props = Some True))"
proof (intro conjI impI)
  show "divAnimationDuration (ShinyText other props) =
     number_to_string other (case speed props of None \<Rightarrow> Fin 5 | Some n \<Rightarrow> n) @ ''s''"
    by (simp add: ShinyText_def Let_def)
  show "divChildren (ShinyText other props) = textProp props"
    by (simp add: ShinyText_def Let_def)
next
  assume "speed props = None"
  then show "divAnimationDuration (ShinyText other props) = ''5s''"
    by (simp add: ShinyText_def Let_def number_to_string_5)
next
  assume "''disabled'' \<notin> set (classList (case className props of None \<Rightarrow> [] | Some c \<Rightarrow> c))"
  then show "''disabled'' \<in> set (classList (divClassName (ShinyText other props)))
         \<longleftrightarrow> disabled props = Some True"
    by (simp add: classList_ShinyText)
qed

theorem ShinyText_render_witness:
  "divAnimationDuration
     (ShinyText (\<lambda>r. [])
        \<lparr>textProp = ''AI-Powered'', disabled = Some True, speed = None,
         className = Some ''hero big''\<rparr>) = ''5s'' \<and>
   ''disabled'' \<in> set (classList (divClassName
     (ShinyText (\<lambda>r. [])
        \<lparr>textProp = ''AI-Powered'', disabled = Some True, speed = None,
         className = Some ''hero big''\<rparr>)))"
  using ShinyText_render [of "\<lambda>r. []"
      "\<lparr>textProp = ''AI-Powered'', disabled = Some True, speed = None,
        className = Some ''hero big''\<rparr>"]
  by (simp add: classList_def is_ws_def number_to_string_5)

text \<open>
  Claim C7 as stated fails where the \<^verbatim>\<open>className\<close> prop is \<^verbatim>\<open>disabled\<close>:
  the \<^verbatim>\<open>disabled\<close> prop is left out, so it is false, and yet the rendered class
  attribute is \<^verbatim>\<open>shiny-text  disabled\<close>, whose class list holds \<^verbatim>\<open>disabled\<close>.
\<close>

theorem ShinyText_className_disabled:
  "disabled \<lparr>textProp = ''AI-Powered'', disabled = None, speed = None,
             className = Some ''disabled''\<rparr> \<noteq> Some True \<and>
   divClassName (ShinyText (\<lambda>r. [])
        \<lparr>textProp = ''AI-Powered'', disabled = None, speed = None,
         className = Some ''disabled''\<rparr>) = ''shiny-text  disabled'' \<and>
   ''disabled'' \<in> set (classList (divClassName
     (ShinyText (\<lambda>r. [])
        \<lparr>textProp = ''AI-Powered'', disabled = None, speed = None,
         className = Some ''disabled''\<rparr>)))"
  by (simp add: ShinyText_def Let_def classList_def is_ws_def)

end
